theory Spec2Isabelle
  imports Main
begin

section \<open>Shared data model\<close>

text \<open>
  The value types of package \<open>rp\<close>. \<open>Tag\<close> and \<open>Commit\<close> both have a field \<open>Hash\<close> in
  the source; the fields carry the name of their struct here.
\<close>

record Tag =
  Tag_Hash :: string
  Tag_Name :: string

record Commit =
  Commit_Hash :: string
  Commit_Message :: string

text \<open>
  Modelled from the spec: the declaration of \<open>AnalyzedCommit\<close> is not among the sources;
  the data model gives its fields as \<open>{Type, Scope, Breaking, Description, SourceCommit}\<close>.
  The code under study reads \<open>Type\<close> only.
\<close>

record AnalyzedCommit =
  Type :: string
  Scope :: string
  Breaking :: bool
  Description :: string
  SourceCommit :: Commit

record Changeset =
  URL :: string
  Identifier :: string
  ChangelogEntries :: "AnalyzedCommit list"

text \<open>
  Errors are values. \<open>ErrorResponse\<close> is the GitHub client's error type with its
  \<open>Message\<close>; \<open>NotImplemented\<close> is \<open>fmt.Errorf("not implemented")\<close>; \<open>Panic\<close> is a Go run-time
  panic; \<open>OtherError\<close> is any other error value.
\<close>

datatype error =
  ErrorResponse string
| NotImplemented
| Panic string
| OtherError string

section \<open>Changelog entry (changelog.go)\<close>

text \<open>The map handed to the template by \<open>NewChangelogEntry\<close>.\<close>

record TemplateData =
  Features :: "AnalyzedCommit list"
  Fixes :: "AnalyzedCommit list"
  Version :: string
  VersionLink :: string
  Prefix :: string
  Suffix :: string

text \<open>
  The file \<open>changelog.md.tpl\<close> embedded into \<open>changelogTemplate\<close> is not among the sources.
  The parsed template is a parameter: what \<open>Execute\<close> writes for a given data map, or the
  error it returns.
\<close>

type_synonym Template = "TemplateData \<Rightarrow> error + string"

text \<open>
  The \<open>for _, commit := range commits\<close> loop with its \<open>switch commit.Type\<close>: the two slices
  are the accumulators, \<open>append\<close> adds at the end.
\<close>

fun group_commits ::
  "AnalyzedCommit list \<Rightarrow> AnalyzedCommit list \<Rightarrow> AnalyzedCommit list
    \<Rightarrow> AnalyzedCommit list \<times> AnalyzedCommit list" where
  "group_commits [] features fixes = (features, fixes)"
| "group_commits (commit # commits) features fixes =
     (if Type commit = ''feat'' then group_commits commits (features @ [commit]) fixes
      else if Type commit = ''fix'' then group_commits commits features (fixes @ [commit])
      else group_commits commits features fixes)"

definition NewChangelogEntry ::
  "Template \<Rightarrow> AnalyzedCommit list \<Rightarrow> string \<Rightarrow> string \<Rightarrow> string \<Rightarrow> string
    \<Rightarrow> error + string" where
  "NewChangelogEntry changelogTemplate commits version link prefix suffix =
     (case group_commits commits [] [] of
        (features, fixes) \<Rightarrow>
          (case changelogTemplate
                  \<lparr>Features = features, Fixes = fixes, Version = version,
                   VersionLink = link, Prefix = prefix, Suffix = suffix\<rparr> of
             Inl err \<Rightarrow> Inl err
           | Inr changelog \<Rightarrow> Inr changelog))"

section \<open>Section blocks of the markdown parser (extensions/section.go)\<close>

text \<open>
  The two regular expressions are \<^verbatim>\<open>^<!-- section-start (.+) -->\<close> and
  \<^verbatim>\<open>^<!-- section-end (.+) -->\<close>. Both are anchored at the start of the text only,
  the dot matches every character but the line feed, and the plus is greedy: the group
  takes the longest non-empty run without a line feed that is followed by \<^verbatim>\<open> -->\<close>.
\<close>

definition sectionStartPrefix :: string where
  "sectionStartPrefix = ''<!-- section-start ''"

definition sectionEndPrefix :: string where
  "sectionEndPrefix = ''<!-- section-end ''"

definition markerSuffix :: string where
  "markerSuffix = '' -->''"

text \<open>\<open>fmt.Sprintf\<close> of \<open>SectionStartFormat\<close> and of \<open>SectionEndFormat\<close>.\<close>

definition SectionStartFormat :: "string \<Rightarrow> string" where
  "SectionStartFormat name = sectionStartPrefix @ name @ markerSuffix"

definition SectionEndFormat :: "string \<Rightarrow> string" where
  "SectionEndFormat name = sectionEndPrefix @ name @ markerSuffix"

fun strip_prefix :: "string \<Rightarrow> string \<Rightarrow> string option" where
  "strip_prefix [] s = Some s"
| "strip_prefix (p # ps) [] = None"
| "strip_prefix (p # ps) (c # cs) = (if p = c then strip_prefix ps cs else None)"

text \<open>
  The group \<^verbatim>\<open>(.+)\<close> followed by \<^verbatim>\<open> -->\<close>, matched at the start of the given text:
  the longer match is tried first (greedy), a line feed ends the run.
\<close>

fun greedy_group :: "string \<Rightarrow> string option" where
  "greedy_group [] = None"
| "greedy_group (c # cs) =
     (if c = CHR 0x0A then None
      else (case greedy_group cs of
              Some m \<Rightarrow> Some (c # m)
            | None \<Rightarrow> if take 4 cs = markerSuffix then Some [c] else None))"

text \<open>\<open>FindSubmatch\<close>: \<open>None\<close> is the nil result, \<open>Some name\<close> is \<open>result[1]\<close>.\<close>

definition sectionStartRegex_FindSubmatch :: "string \<Rightarrow> string option" where
  "sectionStartRegex_FindSubmatch line =
     (case strip_prefix sectionStartPrefix line of
        None \<Rightarrow> None
      | Some rest \<Rightarrow> greedy_group rest)"

definition sectionEndRegex_FindSubmatch :: "string \<Rightarrow> string option" where
  "sectionEndRegex_FindSubmatch line =
     (case strip_prefix sectionEndPrefix line of
        None \<Rightarrow> None
      | Some rest \<Rightarrow> greedy_group rest)"

text \<open>
  The reader is the list of lines not yet consumed, the current line first. \<open>PeekLine\<close>
  at the end of the input gives the empty (nil) line.
\<close>

type_synonym Reader = "string list"

definition PeekLine :: "Reader \<Rightarrow> string" where
  "PeekLine reader = (case reader of [] \<Rightarrow> [] | line # _ \<Rightarrow> line)"

definition AdvanceLine :: "Reader \<Rightarrow> Reader" where
  "AdvanceLine reader = drop 1 reader"

text \<open>
  The node \<open>ast.Section\<close>; its constructor \<open>ast.NewSection\<close> is not among the sources and
  is taken to store its argument in the field \<open>Name\<close> that \<open>Continue\<close> reads.
\<close>

record Section =
  Name :: string

definition NewSection :: "string \<Rightarrow> Section" where
  "NewSection name = \<lparr>Name = name\<rparr>"

text \<open>The values of \<open>parser.State\<close> that the section parser returns.\<close>

datatype State = HasChildren | NoChildren | Close | Continue_HasChildren

definition sectionParser_Open :: "Reader \<Rightarrow> Section option \<times> State \<times> Reader" where
  "sectionParser_Open reader =
     (case sectionStartRegex_FindSubmatch (PeekLine reader) of
        Some result \<Rightarrow> (Some (NewSection result), HasChildren, AdvanceLine reader)
      | None \<Rightarrow> (None, NoChildren, reader))"

definition sectionParser_Continue :: "Section \<Rightarrow> Reader \<Rightarrow> State \<times> Reader" where
  "sectionParser_Continue n reader =
     (case sectionEndRegex_FindSubmatch (PeekLine reader) of
        Some result \<Rightarrow>
          (if result = Name n then (Close, AdvanceLine reader)
           else (Continue_HasChildren, reader))
      | None \<Rightarrow> (Continue_HasChildren, reader))"

section \<open>The GitHub forge (forge.go)\<close>

subsection \<open>Types of the GitHub client library\<close>

text \<open>
  The structs of the client library have pointer fields read through nil-safe getters
  (\<open>GetSHA\<close>, \<open>GetName\<close>, \<open>GetMergeCommitSHA\<close>, \<open>Base.GetLabel\<close>, ...), which give the zero
  value for a missing field. The records hold what the getters return.
\<close>

record ListOptions =
  Page :: int
  PerPage :: int

record Response =
  NextPage :: int
  LastPage :: int

record RepositoryTag =
  RepositoryTag_Name :: string
  RepositoryTag_CommitSHA :: string

record RepositoryCommit =
  SHA :: string
  CommitMessage :: string

record CommitsComparison =
  TotalCommits :: int
  Commits :: "RepositoryCommit list"

record Label =
  Label_Name :: string

record PullRequest =
  PullRequest_ID :: int
  Number :: int
  PullRequest_Title :: string
  Body :: string
  PullRequest_State :: string
  HTMLURL :: string
  MergeCommitSHA :: string
  BaseLabel :: string
  HeadLabel :: string
  PullRequest_Labels :: "Label list"

record ReleasePullRequest =
  ID :: int
  Title :: string
  ReleasePullRequest_Description :: string
  Labels :: "string list"

text \<open>
  The three endpoints the adapter calls, with owner and repository as their first two
  arguments. \<open>ListTags\<close> is called with nil options (\<open>None\<close>). One call of an adapter
  function sees one state of the remote: the same request gets the same answer.
\<close>

record Client =
  ListTags ::
    "string \<Rightarrow> string \<Rightarrow> ListOptions option \<Rightarrow> error + (RepositoryTag list \<times> Response)"
  CompareCommits ::
    "string \<Rightarrow> string \<Rightarrow> string \<Rightarrow> string \<Rightarrow> ListOptions
      \<Rightarrow> error + (CommitsComparison \<times> Response)"
  ListPullRequestsWithCommit ::
    "string \<Rightarrow> string \<Rightarrow> string \<Rightarrow> ListOptions \<Rightarrow> error + (PullRequest list \<times> Response)"

subsection \<open>Effects: requests and log records\<close>

datatype attr = AStr string | AInt int | AErr error

datatype level = Debug | Info | Warn

type_synonym Logger = "(string \<times> attr) list"

text \<open>
  What a call of the adapter does besides returning: the requests it sends and the
  records it logs, in order. A logger is the list of attributes bound by \<open>With\<close>.
\<close>

datatype event =
  Call_ListTags string string "ListOptions option"
| Call_CompareCommits string string string string ListOptions
| Call_ListPullRequestsWithCommit string string string ListOptions
| Log level string "(string \<times> attr) list"


text \<open>One pass through the body of a \<open>for { ... }\<close> loop: leave it, or go round again.\<close>

datatype ('r, 's) iter = Return 'r | Next 's

subsection \<open>The adapter\<close>

definition GitHubPerPageMax :: int where
  "GitHubPerPageMax = 100"

definition GitHubPRStateOpen :: string where
  "GitHubPRStateOpen = ''open''"

text \<open>\<open>GitHubOptions\<close> with the embedded \<open>ForgeOptions\<close>.\<close>

record GitHubOptions =
  Repository :: string
  BaseBranch :: string
  Owner :: string
  Repo :: string
  APIToken :: string
  Username :: string

record GitHub =
  options :: GitHubOptions
  client :: Client
  log :: Logger

definition LatestTag :: "GitHub \<Rightarrow> (error + Tag option) \<times> event list" where
  "LatestTag g =
     (let tr = [Log Debug ''listing all tags in github repository'' (log g),
                Call_ListTags (Owner (options g)) (Repo (options g)) None]
      in case ListTags (client g) (Owner (options g)) (Repo (options g)) None of
           Inl err \<Rightarrow> (Inl err, tr)
         | Inr (tags, _) \<Rightarrow>
             (case tags of
                tag # _ \<Rightarrow>
                  (Inr (Some \<lparr>Tag_Hash = RepositoryTag_CommitSHA tag,
                              Tag_Name = RepositoryTag_Name tag\<rparr>), tr)
              | [] \<Rightarrow> (Inr None, tr)))"

text \<open>
  The body of the loop of \<open>commitsSinceTag\<close>. The state is the page, the slice
  \<open>repositoryCommits\<close> (\<open>None\<close> while it is nil) and the effects so far. \<open>make\<close> with a
  negative capacity panics.
\<close>

definition commitsSinceTag_body ::
  "GitHub \<Rightarrow> Tag \<Rightarrow> int \<times> RepositoryCommit list option \<times> event list
    \<Rightarrow> ((error + RepositoryCommit list) \<times> event list,
        int \<times> RepositoryCommit list option \<times> event list) iter" where
  "commitsSinceTag_body g tag st =
     (case st of (page, repositoryCommits, tr) \<Rightarrow>
        (let head = BaseBranch (options g);
             lg = log g @ [(''base'', AStr (Tag_Hash tag)), (''head'', AStr head)];
             opts = \<lparr>Page = page, PerPage = GitHubPerPageMax\<rparr>;
             tr1 = tr @ [Log Debug ''fetching page'' (lg @ [(''page'', AInt page)]),
                         Call_CompareCommits (Owner (options g)) (Repo (options g))
                           (Tag_Hash tag) head opts]
         in case CompareCommits (client g) (Owner (options g)) (Repo (options g))
                   (Tag_Hash tag) head opts of
              Inl err \<Rightarrow> Return (Inl err, tr1)
            | Inr (comparison, resp) \<Rightarrow>
                (let tr2 = (case repositoryCommits of
                              None \<Rightarrow> tr1 @ [Log Debug ''found commits''
                                         (lg @ [(''length'', AInt (TotalCommits comparison))])]
                            | Some _ \<Rightarrow> tr1)
                 in case (case repositoryCommits of
                            None \<Rightarrow> if TotalCommits comparison < 0
                                    then Inl (Panic ''makeslice: cap out of range'')
                                    else Inr []
                          | Some cs \<Rightarrow> Inr cs) of
                      Inl err \<Rightarrow> Return (Inl err, tr2)
                    | Inr cs \<Rightarrow>
                        (if page = LastPage resp \<or> LastPage resp = 0
                         then Return (Inr (cs @ Commits comparison), tr2)
                         else Next (NextPage resp, Some (cs @ Commits comparison), tr2)))))"

partial_function (option) commitsSinceTag_loop ::
  "GitHub \<Rightarrow> Tag \<Rightarrow> int \<times> RepositoryCommit list option \<times> event list
    \<Rightarrow> ((error + RepositoryCommit list) \<times> event list) option" where
  "commitsSinceTag_loop g tag st =
     (case commitsSinceTag_body g tag st of
        Return r \<Rightarrow> Some r
      | Next st' \<Rightarrow> commitsSinceTag_loop g tag st')"

declare commitsSinceTag_loop.simps [code]

definition commitsSinceTag ::
  "GitHub \<Rightarrow> Tag \<Rightarrow> ((error + RepositoryCommit list) \<times> event list) option" where
  "commitsSinceTag g tag =
     (let head = BaseBranch (options g);
          lg = log g @ [(''base'', AStr (Tag_Hash tag)), (''head'', AStr head)]
      in commitsSinceTag_loop g tag
           (1, None, [Log Debug ''comparing commits''
                        (lg @ [(''base'', AStr (Tag_Hash tag)), (''head'', AStr head)])]))"

text \<open>\<open>None\<close> is a call that does not return (the paging loop goes on for ever).\<close>

definition CommitsSince ::
  "GitHub \<Rightarrow> Tag option \<Rightarrow> ((error + Commit list) \<times> event list) option" where
  "CommitsSince g tag =
     (case tag of
        Some t \<Rightarrow>
          (case commitsSinceTag g t of
             None \<Rightarrow> None
           | Some (Inl err, tr) \<Rightarrow> Some (Inl err, tr)
           | Some (Inr repositoryCommits, tr) \<Rightarrow>
               Some (Inr (map (\<lambda>ghCommit. \<lparr>Commit_Hash = SHA ghCommit,
                                            Commit_Message = CommitMessage ghCommit\<rparr>)
                            repositoryCommits), tr))
      | None \<Rightarrow> Some (Inl NotImplemented, []))"

subsection \<open>Changesets\<close>

text \<open>\<open>fmt.Sprintf("%d", n)\<close>: the decimal digits of an integer.\<close>

fun digits :: "nat \<Rightarrow> string" where
  "digits n =
     (if n < 10 then [''0123456789'' ! n]
      else digits (n div 10) @ [''0123456789'' ! (n mod 10)])"

definition Itoa :: "int \<Rightarrow> string" where
  "Itoa i = (if i < 0 then ''-'' @ digits (nat (- i)) else digits (nat i))"

text \<open>
  The inner loop of \<open>Changesets\<close>, which collects the pull requests associated with one
  commit. The state is the page, the slice \<open>associatedPRs\<close> and the effects so far.
\<close>

definition associatedPRs_body ::
  "GitHub \<Rightarrow> Commit \<Rightarrow> int \<times> PullRequest list \<times> event list
    \<Rightarrow> ((error + PullRequest list) \<times> event list,
        int \<times> PullRequest list \<times> event list) iter" where
  "associatedPRs_body g commit st =
     (case st of (page, associatedPRs, tr) \<Rightarrow>
        (let lg = log g @ [(''commit.hash'', AStr (Commit_Hash commit))];
             opts = \<lparr>Page = page, PerPage = GitHubPerPageMax\<rparr>;
             tr1 = tr @ [Log Debug ''fetching pull requests associated with commit''
                           (lg @ [(''page'', AInt page)]),
                         Call_ListPullRequestsWithCommit (Owner (options g))
                           (Repo (options g)) (Commit_Hash commit) opts]
         in case ListPullRequestsWithCommit (client g) (Owner (options g))
                   (Repo (options g)) (Commit_Hash commit) opts of
              Inl err \<Rightarrow> Return (Inl err, tr1)
            | Inr (prs, resp) \<Rightarrow>
                (if page = LastPage resp \<or> LastPage resp = 0
                 then Return (Inr (associatedPRs @ prs), tr1)
                 else Next (NextPage resp, associatedPRs @ prs, tr1))))"

partial_function (option) associatedPRs_loop ::
  "GitHub \<Rightarrow> Commit \<Rightarrow> int \<times> PullRequest list \<times> event list
    \<Rightarrow> ((error + PullRequest list) \<times> event list) option" where
  "associatedPRs_loop g commit st =
     (case associatedPRs_body g commit st of
        Return r \<Rightarrow> Some r
      | Next st' \<Rightarrow> associatedPRs_loop g commit st')"

declare associatedPRs_loop.simps [code]

text \<open>
  \<open>AnalyzeCommits\<close> is not among the sources; it is a parameter. Its second result (the
  version bump) is discarded by \<open>Changesets\<close> and left out.
\<close>

type_synonym Analyzer = "Commit list \<Rightarrow> error + AnalyzedCommit list"

text \<open>
  What \<open>Changesets\<close> does with one commit once its pull requests are fetched: the
  changesets and effects after this commit. \<open>find\<close> is the loop that takes the first pull
  request whose merge commit is this commit.
\<close>

definition changeset_of_commit ::
  "GitHub \<Rightarrow> Analyzer \<Rightarrow> Commit \<Rightarrow> PullRequest list \<Rightarrow> Changeset list \<Rightarrow> event list
    \<Rightarrow> Changeset list \<times> event list" where
  "changeset_of_commit g AnalyzeCommits commit associatedPRs changesets tr =
     (let lg = log g @ [(''commit.hash'', AStr (Commit_Hash commit))]
      in case find (\<lambda>pr. MergeCommitSHA pr = Commit_Hash commit) associatedPRs of
           None \<Rightarrow>
             (changesets,
              tr @ [Log Warn
                ''did not find associated pull request, not considering it for changesets''
                lg])
         | Some pullrequest \<Rightarrow>
             (let lg' = lg @ [(''pullrequest.id'', AInt (PullRequest_ID pullrequest))]
              in case AnalyzeCommits [commit] of
                   Inl err \<Rightarrow>
                     (changesets,
                      tr @ [Log Warn ''unable to parse changelog entries''
                              (lg' @ [(''error'', AErr err)])])
                 | Inr changelogEntries \<Rightarrow>
                     (if length changelogEntries > 0
                      then (changesets @
                              [\<lparr>URL = HTMLURL pullrequest,
                                Identifier = ''#'' @ Itoa (Number pullrequest),
                                ChangelogEntries = changelogEntries\<rparr>], tr)
                      else (changesets, tr))))"

text \<open>The loop over the commits, with the slice \<open>changesets\<close> and the effects so far.\<close>

fun Changesets_loop ::
  "GitHub \<Rightarrow> Analyzer \<Rightarrow> Commit list \<Rightarrow> Changeset list \<Rightarrow> event list
    \<Rightarrow> ((error + Changeset list) \<times> event list) option" where
  "Changesets_loop g AnalyzeCommits [] changesets tr = Some (Inr changesets, tr)"
| "Changesets_loop g AnalyzeCommits (commit # commits) changesets tr =
     (case associatedPRs_loop g commit (1, [], tr) of
        None \<Rightarrow> None
      | Some (Inl err, tr1) \<Rightarrow> Some (Inl err, tr1)
      | Some (Inr associatedPRs, tr1) \<Rightarrow>
          (case changeset_of_commit g AnalyzeCommits commit associatedPRs changesets tr1 of
             (changesets', tr2) \<Rightarrow> Changesets_loop g AnalyzeCommits commits changesets' tr2))"

definition Changesets ::
  "GitHub \<Rightarrow> Analyzer \<Rightarrow> Commit list \<Rightarrow> ((error + Changeset list) \<times> event list) option" where
  "Changesets g AnalyzeCommits commits = Changesets_loop g AnalyzeCommits commits [] []"

subsection \<open>PullRequestForBranch\<close>

text \<open>
  \<open>errors.As\<close> finds the client's \<open>ErrorResponse\<close> in an error; an error that holds one is
  the value \<open>ErrorResponse message\<close>.
\<close>

definition is_release_pr :: "GitHub \<Rightarrow> string \<Rightarrow> PullRequest \<Rightarrow> bool" where
  "is_release_pr g branch pr \<longleftrightarrow>
     BaseLabel pr = BaseBranch (options g) \<and> HeadLabel pr = branch
     \<and> PullRequest_State pr = GitHubPRStateOpen"

definition to_ReleasePullRequest :: "PullRequest \<Rightarrow> ReleasePullRequest" where
  "to_ReleasePullRequest pr =
     \<lparr>ID = Number pr, Title = PullRequest_Title pr,
      ReleasePullRequest_Description = Body pr,
      Labels = map Label_Name (PullRequest_Labels pr)\<rparr>"

definition PullRequestForBranch_body ::
  "GitHub \<Rightarrow> string \<Rightarrow> int \<times> event list
    \<Rightarrow> ((error + ReleasePullRequest option) \<times> event list, int \<times> event list) iter" where
  "PullRequestForBranch_body g branch st =
     (case st of (page, tr) \<Rightarrow>
        (let opts = \<lparr>Page = page, PerPage = GitHubPerPageMax\<rparr>;
             tr1 = tr @ [Call_ListPullRequestsWithCommit (Owner (options g))
                           (Repo (options g)) branch opts]
         in case ListPullRequestsWithCommit (client g) (Owner (options g))
                   (Repo (options g)) branch opts of
              Inl err \<Rightarrow>
                (case err of
                   ErrorResponse message \<Rightarrow>
                     (if message = ''No commit found for SHA: '' @ branch
                      then Return (Inr None, tr1)
                      else Return (Inl err, tr1))
                 | _ \<Rightarrow> Return (Inl err, tr1))
            | Inr (prs, resp) \<Rightarrow>
                (case find (is_release_pr g branch) prs of
                   Some pr \<Rightarrow> Return (Inr (Some (to_ReleasePullRequest pr)), tr1)
                 | None \<Rightarrow>
                     (if page = LastPage resp \<or> LastPage resp = 0
                      then Return (Inr None, tr1)
                      else Next (NextPage resp, tr1)))))"

partial_function (option) PullRequestForBranch_loop ::
  "GitHub \<Rightarrow> string \<Rightarrow> int \<times> event list
    \<Rightarrow> ((error + ReleasePullRequest option) \<times> event list) option" where
  "PullRequestForBranch_loop g branch st =
     (case PullRequestForBranch_body g branch st of
        Return r \<Rightarrow> Some r
      | Next st' \<Rightarrow> PullRequestForBranch_loop g branch st')"

declare PullRequestForBranch_loop.simps [code]

definition PullRequestForBranch ::
  "GitHub \<Rightarrow> string \<Rightarrow> ((error + ReleasePullRequest option) \<times> event list) option" where
  "PullRequestForBranch g branch = PullRequestForBranch_loop g branch (1, [])"

subsection \<open>A paged listing\<close>

text \<open>
  What it means that a listing endpoint \<open>f\<close> (from the page number to the answer) serves
  the non-empty list \<open>pages\<close>: page \<open>i\<close> is answered with the \<open>i\<close>-th element; before the last
  page the answer names the following page as \<open>NextPage\<close> and reports further pages
  (\<open>LastPage\<close> is neither 0 nor this page); on the last page it reports none (\<open>LastPage\<close> is
  0, as the client library sets it without a link header, or this page).
\<close>

definition serves_page :: "(int \<Rightarrow> error + ('a \<times> Response)) \<Rightarrow> 'a list \<Rightarrow> nat \<Rightarrow> bool" where
  "serves_page f pages i =
     (case f (int i + 1) of
        Inl _ \<Rightarrow> False
      | Inr (items, resp) \<Rightarrow>
          items = pages ! i
          \<and> (if i + 1 < length pages
             then NextPage resp = int i + 2 \<and> LastPage resp \<noteq> 0 \<and> LastPage resp \<noteq> int i + 1
             else LastPage resp = 0 \<or> LastPage resp = int i + 1))"

definition paged :: "(int \<Rightarrow> error + ('a \<times> Response)) \<Rightarrow> 'a list \<Rightarrow> bool" where
  "paged f pages \<longleftrightarrow> pages \<noteq> [] \<and> list_all (serves_page f pages) [0..<length pages]"

text \<open>
  The listings the adapter pages through, as functions of the page number, and the
  requests it sends for page \<open>j + 1\<close>.
\<close>

definition pr_page :: "GitHub \<Rightarrow> string \<Rightarrow> int \<Rightarrow> error + (PullRequest list \<times> Response)" where
  "pr_page g ref p =
     ListPullRequestsWithCommit (client g) (Owner (options g)) (Repo (options g)) ref
       \<lparr>Page = p, PerPage = GitHubPerPageMax\<rparr>"


definition pr_call :: "GitHub \<Rightarrow> string \<Rightarrow> nat \<Rightarrow> event" where
  "pr_call g ref j =
     Call_ListPullRequestsWithCommit (Owner (options g)) (Repo (options g)) ref
       \<lparr>Page = int j + 1, PerPage = GitHubPerPageMax\<rparr>"


text \<open>
  The number of pages read by a search that stops at the first page holding an item
  with \<open>P\<close>: the pages without such an item, and one more if there is one.
\<close>

definition pages_read :: "('a \<Rightarrow> bool) \<Rightarrow> 'a list list \<Rightarrow> nat" where
  "pages_read P pages =
     min (length (takeWhile (\<lambda>items. find P items = None) pages) + 1) (length pages)"

subsection \<open>An example remote\<close>

text \<open>
  A remote that serves a list of pages the way GitHub does: the answer to a page before
  the last names the next and the last page, the answer to the last page names neither
  (the client library leaves both 0), a page beyond the last is empty.
\<close>

definition serve :: "'a \<Rightarrow> 'a list \<Rightarrow> int \<Rightarrow> error + ('a \<times> Response)" where
  "serve none pages p =
     (if 1 \<le> p \<and> p \<le> int (length pages)
      then Inr (pages ! nat (p - 1),
                if p < int (length pages)
                then \<lparr>NextPage = p + 1, LastPage = int (length pages)\<rparr>
                else \<lparr>NextPage = 0, LastPage = 0\<rparr>)
      else Inr (none, \<lparr>NextPage = 0, LastPage = 0\<rparr>))"

definition example_pr :: "int \<Rightarrow> string \<Rightarrow> string \<Rightarrow> string \<Rightarrow> PullRequest" where
  "example_pr n title merge_sha head =
     \<lparr>PullRequest_ID = 1000 + n, Number = n, PullRequest_Title = title, Body = [],
      PullRequest_State = (if merge_sha = [] then ''open'' else ''closed''),
      HTMLURL = ''https://github.com/owner/repo/pull/'' @ Itoa n,
      MergeCommitSHA = merge_sha, BaseLabel = ''main'', HeadLabel = head,
      PullRequest_Labels = []\<rparr>"

text \<open>
  The pull requests listed for a commit or branch: commit \<open>bbb\<close> is the merge commit of
  pull request 1, found on the second page; commit \<open>ccc\<close> has no pull request that it
  merges; commit \<open>ddd\<close> merges pull request 2; the release branch for \<open>main\<close> has an open
  pull request on the first of two pages, the one for \<open>dev\<close> has none.
\<close>

definition example_prs :: "string \<Rightarrow> PullRequest list list" where
  "example_prs ref =
     (if ref = ''bbb''
      then [[example_pr 9 ''docs'' ''zzz'' ''docs''], [example_pr 1 ''retry'' ''bbb'' ''retry'']]
      else if ref = ''ccc'' then [[example_pr 9 ''docs'' ''zzz'' ''docs'']]
      else if ref = ''ddd'' then [[example_pr 2 ''wip'' ''ddd'' ''wip'']]
      else if ref = ''releaser-pleaser--branches--main''
      then [[example_pr 9 ''docs'' ''zzz'' ''docs'',
             example_pr 7 ''release'' [] ''releaser-pleaser--branches--main''],
            [example_pr 9 ''docs'' ''zzz'' ''docs'']]
      else if ref = ''releaser-pleaser--branches--dev''
      then [[example_pr 9 ''docs'' ''zzz'' ''docs''], [example_pr 9 ''docs'' ''zzz'' ''docs'']]
      else [])"

definition example_comparisons :: "CommitsComparison list" where
  "example_comparisons =
     [\<lparr>TotalCommits = 3,
       Commits = [\<lparr>SHA = ''bbb'', CommitMessage = ''feat: add retry option''\<rparr>]\<rparr>,
      \<lparr>TotalCommits = 3,
       Commits = [\<lparr>SHA = ''ccc'', CommitMessage = ''fix: correct null check''\<rparr>,
                  \<lparr>SHA = ''ddd'', CommitMessage = ''wip''\<rparr>]\<rparr>]"

definition example_client :: Client where
  "example_client =
     \<lparr>ListTags = (\<lambda>owner repo opts.
        Inr ([\<lparr>RepositoryTag_Name = ''v1.2.0'', RepositoryTag_CommitSHA = ''aaa''\<rparr>],
             \<lparr>NextPage = 2, LastPage = 2\<rparr>)),
      CompareCommits = (\<lambda>owner repo base head opts.
        serve \<lparr>TotalCommits = 3, Commits = []\<rparr> example_comparisons (Page opts)),
      ListPullRequestsWithCommit = (\<lambda>owner repo ref opts.
        if ref = ''limited'' then Inl (ErrorResponse ''API rate limit exceeded'')
        else if example_prs ref = [] then Inl (ErrorResponse (''No commit found for SHA: '' @ ref))
        else serve [] (example_prs ref) (Page opts))\<rparr>"

definition example_github :: GitHub where
  "example_github =
     \<lparr>options = \<lparr>Repository = ''repo'', BaseBranch = ''main'', Owner = ''owner'',
                  Repo = ''repo'', APIToken = [], Username = []\<rparr>,
      client = example_client,
      log = [(''forge'', AStr ''github'')]\<rparr>"

text \<open>The same remote before its first release: no tags.\<close>

definition unreleased_github :: GitHub where
  "unreleased_github =
     example_github\<lparr>client := example_client\<lparr>ListTags := (\<lambda>owner repo opts.
        Inr ([], \<lparr>NextPage = 0, LastPage = 0\<rparr>))\<rparr>\<rparr>"

definition example_tag :: Tag where
  "example_tag = \<lparr>Tag_Hash = ''aaa'', Tag_Name = ''v1.2.0''\<rparr>"

text \<open>A stand-in for \<open>AnalyzeCommits\<close>: headers \<open>feat: \<close> and \<open>fix: \<close> only.\<close>

definition example_analyze :: Analyzer where
  "example_analyze commits =
     Inr (concat (map (\<lambda>c.
       if take 6 (Commit_Message c) = ''feat: ''
       then [\<lparr>Type = ''feat'', Scope = [], Breaking = False,
              Description = drop 6 (Commit_Message c), SourceCommit = c\<rparr>]
       else if take 5 (Commit_Message c) = ''fix: ''
       then [\<lparr>Type = ''fix'', Scope = [], Breaking = False,
              Description = drop 5 (Commit_Message c), SourceCommit = c\<rparr>]
       else []) commits))"


section \<open>The run command (cmd/rp/cmd/run.go)\<close>

text \<open>
  Modelled from the spec: \<open>ReleaseOverrides\<close> is not among the sources; the data model
  gives it the one field \<open>NextVersionType\<close>. Its type is not known; it is a number here,
  0 the zero value of \<open>var releaseOverrides rp.ReleaseOverrides\<close>.
\<close>

record ReleaseOverrides =
  NextVersionType :: int

text \<open>
  What \<open>reconcileReleasePR\<close> calls: the forge (an interface), the functions of package
  \<open>rp\<close> that are not among the sources, and the git library. Each is a parameter that
  gives the result of the call, \<open>Inl\<close> or \<open>Some\<close> being its error. The repository and the
  work tree are the ones of the run and are not passed around. \<open>NewChangelogEntry\<close> is
  called here with three arguments. \<open>GitRemoteName\<close> is a constant of package \<open>rp\<close>.
\<close>

record Collaborators =
  forge_PullRequestForBranch :: "string \<Rightarrow> error + ReleasePullRequest option"
  forge_CloneURL :: string
  forge_ReleaseURL :: "string \<Rightarrow> string"
  pr_GetOverrides :: "ReleasePullRequest \<Rightarrow> error + ReleaseOverrides"
  rp_NextVersion :: "Tag option \<Rightarrow> Changeset list \<Rightarrow> int \<Rightarrow> error + string"
  rp_CloneRepo :: "string \<Rightarrow> string \<Rightarrow> error option"
  repo_Worktree :: "error option"
  repo_Branch :: "string \<Rightarrow> bool"
  repo_DeleteBranch :: "string \<Rightarrow> error option"
  worktree_Checkout :: "string \<Rightarrow> bool \<Rightarrow> error option"
  rp_RunUpdater :: "string \<Rightarrow> error option"
  rp_NewChangelogEntry :: "Changeset list \<Rightarrow> string \<Rightarrow> string \<Rightarrow> error + string"
  rp_UpdateChangelogFile :: "string \<Rightarrow> error option"
  worktree_Commit :: "string \<Rightarrow> error + string"
  repo_PushContext :: "string \<Rightarrow> string list \<Rightarrow> bool \<Rightarrow> error option"
  rp_GitRemoteName :: string

text \<open>
  The calls of a run that change something or ask the forge, in the order they are made.
  The log records of the run are left out.
\<close>

datatype action =
  Act_PullRequestForBranch string
| Act_CloneRepo string string
| Act_DeleteBranch string
| Act_Checkout string bool
| Act_RunUpdater string
| Act_UpdateChangelogFile string
| Act_Commit string
| Act_Push string "string list" bool

definition RELEASER_PLEASER_BRANCH :: "string \<Rightarrow> string" where
  "RELEASER_PLEASER_BRANCH base = ''releaser-pleaser--branches--'' @ base"

text \<open>\<open>plumbing.NewBranchReferenceName\<close> of the git library.\<close>

definition NewBranchReferenceName :: "string \<Rightarrow> string" where
  "NewBranchReferenceName name = ''refs/heads/'' @ name"

text \<open>
  \<open>reconcileReleasePR\<close>: the error it returns (\<open>None\<close> is nil) and the actions it has
  performed. Every \<open>if err != nil { return err }\<close> is a branch.
\<close>

definition reconcileReleasePR ::
  "Collaborators \<Rightarrow> string \<Rightarrow> Changeset list \<Rightarrow> Tag option \<Rightarrow> error option \<times> action list" where
  "reconcileReleasePR w flagBranch changesets tag =
     (let rpBranch = RELEASER_PLEASER_BRANCH flagBranch;
          rpBranchRef = NewBranchReferenceName rpBranch;
          a1 = [Act_PullRequestForBranch (RELEASER_PLEASER_BRANCH flagBranch)]
      in case forge_PullRequestForBranch w (RELEASER_PLEASER_BRANCH flagBranch) of
           Inl err \<Rightarrow> (Some err, a1)
         | Inr pr \<Rightarrow>
      (case (case pr of
               None \<Rightarrow> Inr \<lparr>NextVersionType = 0\<rparr>
             | Some p \<Rightarrow> pr_GetOverrides w p) of
           Inl err \<Rightarrow> (Some err, a1)
         | Inr releaseOverrides \<Rightarrow>
      (case rp_NextVersion w tag changesets (NextVersionType releaseOverrides) of
           Inl err \<Rightarrow> (Some err, a1)
         | Inr nextVersion \<Rightarrow>
      (let a2 = a1 @ [Act_CloneRepo (forge_CloneURL w) flagBranch]
       in case rp_CloneRepo w (forge_CloneURL w) flagBranch of
           Some err \<Rightarrow> (Some err, a2)
         | None \<Rightarrow>
      (case repo_Worktree w of
           Some err \<Rightarrow> (Some err, a2)
         | None \<Rightarrow>
      (let a3 = (if repo_Branch w rpBranch then a2 @ [Act_DeleteBranch rpBranch] else a2)
       in case (if repo_Branch w rpBranch then repo_DeleteBranch w rpBranch else None) of
           Some err \<Rightarrow> (Some err, a3)
         | None \<Rightarrow>
      (let a4 = a3 @ [Act_Checkout rpBranchRef True]
       in case worktree_Checkout w rpBranchRef True of
           Some err \<Rightarrow> (Some err, a4)
         | None \<Rightarrow>
      (let a5 = a4 @ [Act_RunUpdater nextVersion]
       in case rp_RunUpdater w nextVersion of
           Some err \<Rightarrow> (Some err, a5)
         | None \<Rightarrow>
      (case rp_NewChangelogEntry w changesets nextVersion (forge_ReleaseURL w nextVersion) of
           Inl err \<Rightarrow> (Some err, a5)
         | Inr changelogEntry \<Rightarrow>
      (let a6 = a5 @ [Act_UpdateChangelogFile changelogEntry]
       in case rp_UpdateChangelogFile w changelogEntry of
           Some err \<Rightarrow> (Some err, a6)
         | None \<Rightarrow>
      (let releaseCommitMessage = ''chore('' @ flagBranch @ ''): release '' @ nextVersion;
           a7 = a6 @ [Act_Commit releaseCommitMessage]
       in case worktree_Commit w releaseCommitMessage of
           Inl err \<Rightarrow> (Some err, a7)
         | Inr releaseCommit \<Rightarrow>
      (let pushRefSpec = ''+'' @ rpBranchRef @ '':'' @ rpBranchRef;
           a8 = a7 @ [Act_Push (rp_GitRemoteName w) [pushRefSpec] True]
       in case repo_PushContext w (rp_GitRemoteName w) [pushRefSpec] True of
           Some err \<Rightarrow> (Some err, a8)
         | None \<Rightarrow> (None, a8)))))))))))))"

text \<open>A first run on which every step succeeds: no release pull request yet.\<close>

definition example_run :: Collaborators where
  "example_run =
     \<lparr>forge_PullRequestForBranch = (\<lambda>branch. Inr None),
      forge_CloneURL = ''https://github.com/owner/repo.git'',
      forge_ReleaseURL = (\<lambda>version. ''https://github.com/owner/repo/releases/tag/'' @ version),
      pr_GetOverrides = (\<lambda>pr. Inr \<lparr>NextVersionType = 0\<rparr>),
      rp_NextVersion = (\<lambda>tag changesets override. Inr ''v1.3.0''),
      rp_CloneRepo = (\<lambda>url branch. None),
      repo_Worktree = None,
      repo_Branch = (\<lambda>name. False),
      repo_DeleteBranch = (\<lambda>name. None),
      worktree_Checkout = (\<lambda>ref create. None),
      rp_RunUpdater = (\<lambda>version. None),
      rp_NewChangelogEntry = (\<lambda>changesets version link. Inr (''## ['' @ version @ '']('' @ link @ '')'')),
      rp_UpdateChangelogFile = (\<lambda>entry. None),
      worktree_Commit = (\<lambda>message. Inr ''eee''),
      repo_PushContext = (\<lambda>remote refspecs force. None),
      rp_GitRemoteName = ''origin''\<rparr>"

section \<open>Properties of the changelog entry\<close>

lemma group_commits_filter:
  "group_commits commits fs xs =
     (fs @ filter (\<lambda>c. Type c = ''feat'') commits,
      xs @ filter (\<lambda>c. Type c = ''fix'') commits)"
  by (induction commits arbitrary: fs xs) simp_all

lemma sum_case_id: "(case r of Inl err \<Rightarrow> Inl err | Inr v \<Rightarrow> Inr v) = r"
  by (cases r) simp_all

lemma NewChangelogEntry_eq:
  "NewChangelogEntry tpl commits version link prefix suffix =
     tpl \<lparr>Features = filter (\<lambda>c. Type c = ''feat'') commits,
          Fixes = filter (\<lambda>c. Type c = ''fix'') commits,
          Version = version, VersionLink = link, Prefix = prefix, Suffix = suffix\<rparr>"
  by (simp add: NewChangelogEntry_def group_commits_filter sum_case_id)

text \<open>
  C7. The Features group handed to the template is exactly the sublist of commits with
  \<open>Type = "feat"\<close>, the Fixes group exactly the sublist with \<open>Type = "fix"\<close>, each in the order
  of the input (\<open>filter\<close> keeps order and multiplicity); a commit of any other type is in
  neither, and the entry is the template executed on these two groups.
\<close>

theorem NewChangelogEntry_groups:
  "group_commits commits [] [] =
     (filter (\<lambda>c. Type c = ''feat'') commits, filter (\<lambda>c. Type c = ''fix'') commits)
   \<and> NewChangelogEntry tpl commits version link prefix suffix =
     tpl \<lparr>Features = filter (\<lambda>c. Type c = ''feat'') commits,
          Fixes = filter (\<lambda>c. Type c = ''fix'') commits,
          Version = version, VersionLink = link, Prefix = prefix, Suffix = suffix\<rparr>"
  by (simp add: group_commits_filter NewChangelogEntry_eq)

section \<open>Properties of the section parser\<close>

lemma strip_prefix_append: "strip_prefix p (p @ s) = Some s"
  by (induction p) simp_all

lemma take4_no_gt: "CHR ''>'' \<notin> set s \<Longrightarrow> take 4 s \<noteq> markerSuffix"
proof
  assume a: "CHR ''>'' \<notin> set s" and "take 4 s = markerSuffix"
  then have "CHR ''>'' \<in> set (take 4 s)" by (simp add: markerSuffix_def)
  then have "CHR ''>'' \<in> set s" by (rule in_set_takeD)
  with a show False by simp
qed

lemma greedy_group_no_gt: "CHR ''>'' \<notin> set s \<Longrightarrow> greedy_group s = None"
  by (induction s) (simp_all add: take4_no_gt)

lemma greedy_group_suffix:
  assumes "CHR ''>'' \<notin> set tail"
  shows "greedy_group (markerSuffix @ tail) = None"
proof -
  have "take 4 tail \<noteq> '' -->''"
    using take4_no_gt [OF assms] by (simp add: markerSuffix_def)
  with assms show ?thesis
    by (simp add: markerSuffix_def greedy_group_no_gt)
qed

lemma greedy_group_name:
  assumes "CHR ''>'' \<notin> set tail"
  shows "name \<noteq> [] \<Longrightarrow> CHR 0x0A \<notin> set name
    \<Longrightarrow> greedy_group (name @ markerSuffix @ tail) = Some name"
proof (induction name)
  case Nil
  then show ?case by simp
next
  case (Cons c cs)
  show ?case
  proof (cases "cs = []")
    case True
    with Cons.prems greedy_group_suffix [OF assms] show ?thesis
      by (simp add: markerSuffix_def)
  next
    case False
    with Cons have "greedy_group (cs @ markerSuffix @ tail) = Some cs" by simp
    moreover from Cons.prems have "c \<noteq> CHR 0x0A" by auto
    ultimately show ?thesis by simp
  qed
qed

lemma start_FindSubmatch_format:
  "CHR ''>'' \<notin> set tail \<Longrightarrow> name \<noteq> [] \<Longrightarrow> CHR 0x0A \<notin> set name
    \<Longrightarrow> sectionStartRegex_FindSubmatch (SectionStartFormat name @ tail) = Some name"
  by (simp add: sectionStartRegex_FindSubmatch_def SectionStartFormat_def
      strip_prefix_append greedy_group_name)

lemma end_FindSubmatch_format:
  "CHR ''>'' \<notin> set tail \<Longrightarrow> name \<noteq> [] \<Longrightarrow> CHR 0x0A \<notin> set name
    \<Longrightarrow> sectionEndRegex_FindSubmatch (SectionEndFormat name @ tail) = Some name"
  by (simp add: sectionEndRegex_FindSubmatch_def SectionEndFormat_def
      strip_prefix_append greedy_group_name)

text \<open>
  C5. A start-marker line with name \<open>N\<close> opens a section named \<open>N\<close> and is consumed.
  For the section so opened, an end-marker line with name \<open>M\<close> closes the block exactly
  when \<open>M = N\<close>: then the line is consumed by the parser (it is not handed on as content of
  the section); with any other name the block stays open and the reader is left where
  it was, so the line is parsed as nested content. In general \<open>Continue\<close> closes only on a
  line on which the end expression matches with the name of the node, and otherwise leaves
  the reader untouched. Names are non-empty and of one line; a line may go on after its
  marker with text that has no closing angle bracket (the line terminator, blanks).
\<close>

theorem sectionParser_closes_on_same_name_only:
  assumes "N \<noteq> []" and "CHR 0x0A \<notin> set N" and "M \<noteq> []" and "CHR 0x0A \<notin> set M"
    and "CHR ''>'' \<notin> set eol" and "CHR ''>'' \<notin> set eol'"
  shows "sectionParser_Open ((SectionStartFormat N @ eol) # body)
           = (Some (NewSection N), HasChildren, body)
       \<and> sectionParser_Continue (NewSection N) ((SectionEndFormat M @ eol') # rest)
           = (if M = N then (Close, rest)
              else (Continue_HasChildren, (SectionEndFormat M @ eol') # rest))
       \<and> (fst (sectionParser_Continue n reader) = Close
            \<longleftrightarrow> sectionEndRegex_FindSubmatch (PeekLine reader) = Some (Name n))
       \<and> (fst (sectionParser_Continue n reader) \<noteq> Close
            \<longrightarrow> sectionParser_Continue n reader = (Continue_HasChildren, reader))"
proof -
  have a: "sectionParser_Open ((SectionStartFormat N @ eol) # body)
           = (Some (NewSection N), HasChildren, body)"
    using assms
    by (simp add: sectionParser_Open_def PeekLine_def AdvanceLine_def
        start_FindSubmatch_format)
  have b: "sectionParser_Continue (NewSection N) ((SectionEndFormat M @ eol') # rest)
           = (if M = N then (Close, rest)
              else (Continue_HasChildren, (SectionEndFormat M @ eol') # rest))"
    using assms
    by (simp add: sectionParser_Continue_def PeekLine_def AdvanceLine_def
        end_FindSubmatch_format NewSection_def)
  have c: "fst (sectionParser_Continue n reader) = Close
            \<longleftrightarrow> sectionEndRegex_FindSubmatch (PeekLine reader) = Some (Name n)"
    by (auto simp: sectionParser_Continue_def split: option.splits)
  have d: "fst (sectionParser_Continue n reader) \<noteq> Close
            \<longrightarrow> sectionParser_Continue n reader = (Continue_HasChildren, reader)"
    by (auto simp: sectionParser_Continue_def split: option.splits)
  from a b c d show ?thesis by blast
qed

theorem sectionParser_closes_on_same_name_only_witness:
  "sectionParser_Open [''<!-- section-start a -->'', ''x'', ''<!-- section-end b -->'',
       ''<!-- section-end a -->'', ''y'']
     = (Some (NewSection ''a''), HasChildren,
        [''x'', ''<!-- section-end b -->'', ''<!-- section-end a -->'', ''y''])
   \<and> sectionParser_Continue (NewSection ''a'') [''<!-- section-end b -->'',
       ''<!-- section-end a -->'', ''y'']
     = (Continue_HasChildren, [''<!-- section-end b -->'', ''<!-- section-end a -->'', ''y''])
   \<and> sectionParser_Continue (NewSection ''a'') [''<!-- section-end a -->'', ''y'']
     = (Close, [''y''])"
proof -
  have n: "''a'' \<noteq> []" "CHR 0x0A \<notin> set ''a''" "''b'' \<noteq> []" "CHR 0x0A \<notin> set ''b''"
    "CHR ''>'' \<notin> set []"
    by simp_all
  note t1 = sectionParser_closes_on_same_name_only
    [OF n(1) n(2) n(3) n(4) n(5) n(5),
     of "[''x'', ''<!-- section-end b -->'', ''<!-- section-end a -->'', ''y'']"
        "[''<!-- section-end a -->'', ''y'']"]
  note t2 = sectionParser_closes_on_same_name_only
    [OF n(1) n(2) n(1) n(2) n(5) n(5), of "[]" "[''y'']"]
  from t1 t2 show ?thesis
    by (simp add: SectionStartFormat_def SectionEndFormat_def sectionStartPrefix_def
        sectionEndPrefix_def markerSuffix_def)
qed

section \<open>Properties of the GitHub forge\<close>

subsection \<open>The paging loops on a paged listing\<close>

lemma pagedD:
  assumes "paged f pages" and "i < length pages"
  shows "\<exists>resp. f (int i + 1) = Inr (pages ! i, resp)
           \<and> (if i + 1 < length pages
               then NextPage resp = int i + 2 \<and> LastPage resp \<noteq> 0 \<and> LastPage resp \<noteq> int i + 1
               else LastPage resp = 0 \<or> LastPage resp = int i + 1)"
proof -
  from assms have "serves_page f pages i"
    by (simp add: paged_def list_all_iff)
  then show ?thesis
    by (auto simp: serves_page_def split: sum.splits)
qed

lemma find_append:
  "find P (xs @ ys) = (case find P xs of Some x \<Rightarrow> Some x | None \<Rightarrow> find P ys)"
  by (induction xs) simp_all





lemma pages_read_Cons:
  "pages_read P (x # xs) =
     (if find P x = None \<and> xs \<noteq> [] then Suc (pages_read P xs) else 1)"
  by (cases xs) (auto simp: pages_read_def)

lemma PullRequestForBranch_loop_paged:
  assumes pg: "paged (pr_page g branch) pages"
  shows "i < length pages \<Longrightarrow>
    PullRequestForBranch_loop g branch (int i + 1, tr)
      = Some (Inr (map_option to_ReleasePullRequest
                     (find (is_release_pr g branch) (concat (drop i pages)))),
              tr @ map (pr_call g branch)
                     [i..<i + pages_read (is_release_pr g branch) (drop i pages)])"
proof (induction "length pages - i" arbitrary: i tr)
  case 0
  then show ?case by simp
next
  case (Suc m)
  let ?P = "is_release_pr g branch"
  let ?tr1 = "tr @ [pr_call g branch i]"
  from pagedD [OF pg Suc.prems(1)] obtain resp where
    r: "pr_page g branch (int i + 1) = Inr (pages ! i, resp)"
    and c: "if i + 1 < length pages
            then NextPage resp = int i + 2 \<and> LastPage resp \<noteq> 0 \<and> LastPage resp \<noteq> int i + 1
            else LastPage resp = 0 \<or> LastPage resp = int i + 1"
    by blast
  have d: "drop i pages = pages ! i # drop (Suc i) pages"
    using Suc.prems by (simp add: Cons_nth_drop_Suc)
  show ?case
  proof (cases "find ?P (pages ! i)")
    case (Some pr)
    with r have b: "PullRequestForBranch_body g branch (int i + 1, tr)
        = Return (Inr (Some (to_ReleasePullRequest pr)), ?tr1)"
      by (simp add: PullRequestForBranch_body_def pr_page_def pr_call_def)
    have "[i..<i + pages_read ?P (drop i pages)] = [i]"
      using Some by (simp add: d pages_read_Cons)
    moreover have "find ?P (concat (drop i pages)) = Some pr"
      using Some by (simp add: d find_append)
    moreover from b have "PullRequestForBranch_loop g branch (int i + 1, tr)
        = Some (Inr (Some (to_ReleasePullRequest pr)), ?tr1)"
      by (subst PullRequestForBranch_loop.simps) simp
    ultimately show ?thesis by simp
  next
    case None
    show ?thesis
    proof (cases "i + 1 < length pages")
      case True
      with r c None have b: "PullRequestForBranch_body g branch (int i + 1, tr)
          = Next (int (i + 1) + 1, ?tr1)"
        by (simp add: PullRequestForBranch_body_def pr_page_def pr_call_def)
      from Suc have "m = length pages - (i + 1)" by simp
      note ih = Suc.hyps(1) [OF this True, of ?tr1]
      from True have ne: "drop (Suc i) pages \<noteq> []" by simp
      have "[i..<i + pages_read ?P (drop i pages)]
          = i # [i + 1..<i + 1 + pages_read ?P (drop (i + 1) pages)]"
        using None ne by (simp add: d pages_read_Cons upt_conv_Cons)
      moreover have "find ?P (concat (drop i pages)) = find ?P (concat (drop (i + 1) pages))"
        using None by (simp add: d find_append)
      moreover from b ih have "PullRequestForBranch_loop g branch (int i + 1, tr)
          = Some (Inr (map_option to_ReleasePullRequest
                     (find ?P (concat (drop (i + 1) pages)))),
              ?tr1 @ map (pr_call g branch)
                     [i + 1..<i + 1 + pages_read ?P (drop (i + 1) pages)])"
        by (subst PullRequestForBranch_loop.simps) simp
      ultimately show ?thesis by simp
    next
      case False
      with Suc.prems have l: "Suc i = length pages" by simp
      from r c None False have b: "PullRequestForBranch_body g branch (int i + 1, tr)
          = Return (Inr None, ?tr1)"
        by (auto simp: PullRequestForBranch_body_def pr_page_def pr_call_def)
      from l have e: "drop (Suc i) pages = []" by simp
      have "pages_read ?P (drop i pages) = 1"
        by (simp add: d e pages_read_Cons)
      then have "[i..<i + pages_read ?P (drop i pages)] = [i]"
        by simp
      moreover have "find ?P (concat (drop i pages)) = None"
        using None l by (simp add: d find_append)
      moreover from b have "PullRequestForBranch_loop g branch (int i + 1, tr)
          = Some (Inr None, ?tr1)"
        by (subst PullRequestForBranch_loop.simps) simp
      ultimately show ?thesis by simp
    qed
  qed
qed

subsection \<open>Absence and errors\<close>

lemma paged_serve: "pages \<noteq> [] \<Longrightarrow> paged (serve none pages) pages"
  by (auto simp: paged_def list_all_iff serves_page_def serve_def)

text \<open>
  C1. Without a tag, \<open>CommitsSince\<close> of the GitHub adapter sends no request and returns
  the error "not implemented", for every remote: it does not return the history of the
  base branch, which the comment on \<open>Forge.CommitsSince\<close> asks for.
\<close>

theorem CommitsSince_without_tag_fails: "CommitsSince g None = Some (Inl NotImplemented, [])"
  by (simp add: CommitsSince_def)

text \<open>
  C10. When the request for a page fails inside \<open>PullRequestForBranch\<close>, the call ends
  there: with no pull request and no error if the error is an \<open>ErrorResponse\<close> whose
  message is exactly "No commit found for SHA: " followed by the branch, and with that
  error otherwise. This holds at every page, and so for the first request of a call.
\<close>

theorem PullRequestForBranch_api_error:
  assumes "pr_page g branch page = Inl err"
  shows "PullRequestForBranch_loop g branch (page, tr)
           = Some (if err = ErrorResponse (''No commit found for SHA: '' @ branch)
                   then Inr None else Inl err,
                   tr @ [Call_ListPullRequestsWithCommit (Owner (options g)) (Repo (options g))
                           branch \<lparr>Page = page, PerPage = GitHubPerPageMax\<rparr>])
       \<and> (page = 1 \<longrightarrow> PullRequestForBranch g branch
           = Some (if err = ErrorResponse (''No commit found for SHA: '' @ branch)
                   then Inr None else Inl err,
                   [Call_ListPullRequestsWithCommit (Owner (options g)) (Repo (options g))
                           branch \<lparr>Page = 1, PerPage = GitHubPerPageMax\<rparr>]))"
proof -
  have b: "PullRequestForBranch_body g branch (page, tr)
      = Return (if err = ErrorResponse (''No commit found for SHA: '' @ branch)
                   then Inr None else Inl err,
                   tr @ [Call_ListPullRequestsWithCommit (Owner (options g)) (Repo (options g))
                           branch \<lparr>Page = page, PerPage = GitHubPerPageMax\<rparr>])" for tr
    using assms
    by (cases err) (auto simp: PullRequestForBranch_body_def pr_page_def)
  have l: "PullRequestForBranch_loop g branch (page, tr)
           = Some (if err = ErrorResponse (''No commit found for SHA: '' @ branch)
                   then Inr None else Inl err,
                   tr @ [Call_ListPullRequestsWithCommit (Owner (options g)) (Repo (options g))
                           branch \<lparr>Page = page, PerPage = GitHubPerPageMax\<rparr>])" for tr
    by (subst PullRequestForBranch_loop.simps) (simp add: b)
  show ?thesis
  proof (intro conjI impI)
    show "PullRequestForBranch_loop g branch (page, tr)
           = Some (if err = ErrorResponse (''No commit found for SHA: '' @ branch)
                   then Inr None else Inl err,
                   tr @ [Call_ListPullRequestsWithCommit (Owner (options g)) (Repo (options g))
                           branch \<lparr>Page = page, PerPage = GitHubPerPageMax\<rparr>])"
      by (rule l)
  next
    assume p: "page = 1"
    have "PullRequestForBranch g branch = PullRequestForBranch_loop g branch (page, [])"
      by (simp only: PullRequestForBranch_def p)
    also note l [of "[]"]
    finally show "PullRequestForBranch g branch
           = Some (if err = ErrorResponse (''No commit found for SHA: '' @ branch)
                   then Inr None else Inl err,
                   [Call_ListPullRequestsWithCommit (Owner (options g)) (Repo (options g))
                           branch \<lparr>Page = 1, PerPage = GitHubPerPageMax\<rparr>])"
      by (simp only: p append_Nil)
  qed
qed

lemma example_simps:
  "options example_github = \<lparr>Repository = ''repo'', BaseBranch = ''main'', Owner = ''owner'',
                  Repo = ''repo'', APIToken = [], Username = []\<rparr>"
  "client example_github = example_client"
  "log example_github = [(''forge'', AStr ''github'')]"
  by (simp_all add: example_github_def)

theorem PullRequestForBranch_api_error_witness:
  "PullRequestForBranch example_github ''no-such-branch''
     = Some (Inr None, [Call_ListPullRequestsWithCommit ''owner'' ''repo'' ''no-such-branch''
                          \<lparr>Page = 1, PerPage = 100\<rparr>])
   \<and> PullRequestForBranch example_github ''limited''
     = Some (Inl (ErrorResponse ''API rate limit exceeded''),
             [Call_ListPullRequestsWithCommit ''owner'' ''repo'' ''limited''
                          \<lparr>Page = 1, PerPage = 100\<rparr>])"
proof -
  have a: "pr_page example_github ''no-such-branch'' 1
      = Inl (ErrorResponse ''No commit found for SHA: no-such-branch'')"
    by (simp add: pr_page_def example_simps example_client_def example_prs_def)
  have b: "pr_page example_github ''limited'' 1
      = Inl (ErrorResponse ''API rate limit exceeded'')"
    by (simp add: pr_page_def example_simps example_client_def example_prs_def)
  from PullRequestForBranch_api_error [OF a, of "[]"]
    PullRequestForBranch_api_error [OF b, of "[]"]
  show ?thesis
    by (simp add: example_simps GitHubPerPageMax_def)
qed

text \<open>
  C6. Absence is a value, not an error: \<open>LatestTag\<close> returns no tag and no error when
  the listing of tags is empty, and \<open>PullRequestForBranch\<close> returns no pull request and
  no error when the paged listing for the branch holds no open pull request from the
  branch into the base branch.
\<close>

theorem absence_is_none_without_error:
  "(ListTags (client g) (Owner (options g)) (Repo (options g)) None = Inr ([], resp)
      \<longrightarrow> fst (LatestTag g) = Inr None)
   \<and> (paged (pr_page g branch) pages
        \<and> find (is_release_pr g branch) (concat pages) = None
      \<longrightarrow> (\<exists>tr. PullRequestForBranch g branch = Some (Inr None, tr)))"
proof -
  have a: "fst (LatestTag g) = Inr None"
    if "ListTags (client g) (Owner (options g)) (Repo (options g)) None = Inr ([], resp)"
    using that by (simp add: LatestTag_def)
  have b: "\<exists>tr. PullRequestForBranch g branch = Some (Inr None, tr)"
    if pg: "paged (pr_page g branch) pages"
      and nf: "find (is_release_pr g branch) (concat pages) = None"
  proof -
    from pg have "0 < length pages" by (simp add: paged_def)
    from PullRequestForBranch_loop_paged [OF pg this, of "[]"] nf
    show ?thesis by (simp add: PullRequestForBranch_def)
  qed
  from a b show ?thesis by blast
qed

theorem absence_is_none_without_error_witness:
  "fst (LatestTag unreleased_github) = Inr None
   \<and> (\<exists>tr. PullRequestForBranch example_github ''releaser-pleaser--branches--dev''
             = Some (Inr None, tr))"
proof -
  have t: "ListTags (client unreleased_github) (Owner (options unreleased_github))
      (Repo (options unreleased_github)) None = Inr ([], \<lparr>NextPage = 0, LastPage = 0\<rparr>)"
    by (simp add: unreleased_github_def example_github_def)
  have p: "paged (pr_page example_github ''releaser-pleaser--branches--dev'')
      (example_prs ''releaser-pleaser--branches--dev'')"
    by (simp add: paged_def serves_page_def pr_page_def example_simps example_client_def
        example_prs_def serve_def upt_conv_Cons)
  have f: "find (is_release_pr example_github ''releaser-pleaser--branches--dev'')
      (concat (example_prs ''releaser-pleaser--branches--dev'')) = None"
    by (simp add: is_release_pr_def example_prs_def example_pr_def example_simps)
  from absence_is_none_without_error [of unreleased_github "\<lparr>NextPage = 0, LastPage = 0\<rparr>"] t
  have a: "fst (LatestTag unreleased_github) = Inr None" by blast
  from absence_is_none_without_error [of example_github _
      "''releaser-pleaser--branches--dev''"
      "example_prs ''releaser-pleaser--branches--dev''"] p f
  have "\<exists>tr. PullRequestForBranch example_github ''releaser-pleaser--branches--dev''
             = Some (Inr None, tr)" by blast
  with a show ?thesis by blast
qed

subsection \<open>Paging\<close>





subsection \<open>Changesets\<close>

lemma changeset_of_commit_cases:
  assumes "changeset_of_commit g an c prs css tr = (css', tr')"
  shows "css' = css
     \<or> (\<exists>pr entries. find (\<lambda>pr. MergeCommitSHA pr = Commit_Hash c) prs = Some pr
           \<and> an [c] = Inr entries \<and> entries \<noteq> []
           \<and> css' = css @ [\<lparr>URL = HTMLURL pr, Identifier = ''#'' @ Itoa (Number pr),
                              ChangelogEntries = entries\<rparr>])"
  using assms
  by (auto simp: changeset_of_commit_def Let_def split: option.splits sum.splits if_splits)

lemma Changesets_loop_origin:
  "Changesets_loop g an commits css0 tr = Some (Inr css, tr') \<Longrightarrow> cs \<in> set css \<Longrightarrow>
     cs \<in> set css0
     \<or> (\<exists>commit \<in> set commits. \<exists>prs tr0 tr1 pr.
           associatedPRs_loop g commit (1, [], tr0) = Some (Inr prs, tr1)
           \<and> find (\<lambda>pr. MergeCommitSHA pr = Commit_Hash commit) prs = Some pr
           \<and> an [commit] = Inr (ChangelogEntries cs) \<and> ChangelogEntries cs \<noteq> []
           \<and> URL cs = HTMLURL pr \<and> Identifier cs = ''#'' @ Itoa (Number pr))"
proof (induction commits arbitrary: css0 tr)
  case Nil
  then show ?case by simp
next
  case (Cons c commits)
  from Cons.prems(1) obtain prs tr1 where
    l: "associatedPRs_loop g c (1, [], tr) = Some (Inr prs, tr1)"
    by (auto split: option.splits sum.splits prod.splits)
  obtain css1 tr2 where
    k: "changeset_of_commit g an c prs css0 tr1 = (css1, tr2)"
    by (cases "changeset_of_commit g an c prs css0 tr1") blast
  from Cons.prems(1) l k have
    r: "Changesets_loop g an commits css1 tr2 = Some (Inr css, tr')"
    by simp
  from Cons.IH [OF r Cons.prems(2)] consider
    (old) "cs \<in> set css1"
    | (later) "\<exists>commit \<in> set commits. \<exists>prs tr0 tr1 pr.
           associatedPRs_loop g commit (1, [], tr0) = Some (Inr prs, tr1)
           \<and> find (\<lambda>pr. MergeCommitSHA pr = Commit_Hash commit) prs = Some pr
           \<and> an [commit] = Inr (ChangelogEntries cs) \<and> ChangelogEntries cs \<noteq> []
           \<and> URL cs = HTMLURL pr \<and> Identifier cs = ''#'' @ Itoa (Number pr)"
    by blast
  then show ?case
  proof cases
    case old
    from changeset_of_commit_cases [OF k] show ?thesis
    proof
      assume "css1 = css0"
      with old show ?thesis by simp
    next
      assume "\<exists>pr entries. find (\<lambda>pr. MergeCommitSHA pr = Commit_Hash c) prs = Some pr
           \<and> an [c] = Inr entries \<and> entries \<noteq> []
           \<and> css1 = css0 @ [\<lparr>URL = HTMLURL pr, Identifier = ''#'' @ Itoa (Number pr),
                              ChangelogEntries = entries\<rparr>]"
      then obtain pr entries where
        f: "find (\<lambda>pr. MergeCommitSHA pr = Commit_Hash c) prs = Some pr"
        and e: "an [c] = Inr entries" "entries \<noteq> []"
        and c1: "css1 = css0 @ [\<lparr>URL = HTMLURL pr, Identifier = ''#'' @ Itoa (Number pr),
                              ChangelogEntries = entries\<rparr>]"
        by blast
      show ?thesis
      proof (cases "cs \<in> set css0")
        case True
        then show ?thesis by simp
      next
        case False
        with old c1 have "cs = \<lparr>URL = HTMLURL pr, Identifier = ''#'' @ Itoa (Number pr),
                              ChangelogEntries = entries\<rparr>"
          by simp
        with l f e have "\<exists>prs tr0 tr1 pr.
           associatedPRs_loop g c (1, [], tr0) = Some (Inr prs, tr1)
           \<and> find (\<lambda>pr. MergeCommitSHA pr = Commit_Hash c) prs = Some pr
           \<and> an [c] = Inr (ChangelogEntries cs) \<and> ChangelogEntries cs \<noteq> []
           \<and> URL cs = HTMLURL pr \<and> Identifier cs = ''#'' @ Itoa (Number pr)"
          by auto
        then show ?thesis by simp
      qed
    qed
  next
    case later
    then show ?thesis by auto
  qed
qed


lemmas example_defs = example_simps example_client_def example_prs_def example_pr_def
  serve_def GitHubPerPageMax_def example_analyze_def Itoa_def


lemma example_ddd:
  "associatedPRs_loop example_github
     \<lparr>Commit_Hash = ''ddd'', Commit_Message = ''wip''\<rparr> (1, [], [])
   = Some (Inr [example_pr 2 ''wip'' ''ddd'' ''wip''],
       [Log Debug ''fetching pull requests associated with commit''
          [(''forge'', AStr ''github''), (''commit.hash'', AStr ''ddd''), (''page'', AInt 1)],
        Call_ListPullRequestsWithCommit ''owner'' ''repo'' ''ddd'' \<lparr>Page = 1, PerPage = 100\<rparr>])"
  by (simp add: associatedPRs_loop.simps associatedPRs_body_def example_simps
      example_client_def example_prs_def serve_def GitHubPerPageMax_def)

lemma example_Changesets:
  "Changesets example_github example_analyze
     [\<lparr>Commit_Hash = ''bbb'', Commit_Message = ''feat: add retry option''\<rparr>,
      \<lparr>Commit_Hash = ''ccc'', Commit_Message = ''fix: correct null check''\<rparr>,
      \<lparr>Commit_Hash = ''ddd'', Commit_Message = ''wip''\<rparr>]
   = Some (Inr [\<lparr>URL = ''https://github.com/owner/repo/pull/1'', Identifier = ''#1'',
        ChangelogEntries = [\<lparr>Type = ''feat'', Scope = [], Breaking = False,
              Description = ''add retry option'',
              SourceCommit = \<lparr>Commit_Hash = ''bbb'',
                               Commit_Message = ''feat: add retry option''\<rparr>\<rparr>]\<rparr>],
   [Log Debug ''fetching pull requests associated with commit''
     [(''forge'', AStr ''github''), (''commit.hash'', AStr ''bbb''), (''page'', AInt 1)],
    Call_ListPullRequestsWithCommit ''owner'' ''repo'' ''bbb'' \<lparr>Page = 1, PerPage = 100\<rparr>,
    Log Debug ''fetching pull requests associated with commit''
     [(''forge'', AStr ''github''), (''commit.hash'', AStr ''bbb''), (''page'', AInt 2)],
    Call_ListPullRequestsWithCommit ''owner'' ''repo'' ''bbb'' \<lparr>Page = 2, PerPage = 100\<rparr>,
    Log Debug ''fetching pull requests associated with commit''
     [(''forge'', AStr ''github''), (''commit.hash'', AStr ''ccc''), (''page'', AInt 1)],
    Call_ListPullRequestsWithCommit ''owner'' ''repo'' ''ccc'' \<lparr>Page = 1, PerPage = 100\<rparr>,
    Log Warn ''did not find associated pull request, not considering it for changesets''
     [(''forge'', AStr ''github''), (''commit.hash'', AStr ''ccc'')],
    Log Debug ''fetching pull requests associated with commit''
     [(''forge'', AStr ''github''), (''commit.hash'', AStr ''ddd''), (''page'', AInt 1)],
    Call_ListPullRequestsWithCommit ''owner'' ''repo'' ''ddd'' \<lparr>Page = 1, PerPage = 100\<rparr>])"
  by (simp add: Changesets_def associatedPRs_loop.simps associatedPRs_body_def
      changeset_of_commit_def example_defs)


text \<open>
  C9. Every changeset that \<open>Changesets\<close> returns has at least one changelog entry. A
  commit whose pull request is found but for which \<open>AnalyzeCommits\<close> gives no entry or
  fails adds no changeset: the loop goes on with the remaining commits and the changesets
  it had (after logging the failure, if the analysis failed).
\<close>

theorem Changesets_entries_nonempty:
  "(Changesets g an commits = Some (Inr result, tr')
     \<longrightarrow> list_all (\<lambda>cs. ChangelogEntries cs \<noteq> []) result)
   \<and> (associatedPRs_loop g commit (1, [], tr) = Some (Inr prs, tr1)
      \<and> find (\<lambda>pr. MergeCommitSHA pr = Commit_Hash commit) prs = Some pr
      \<and> (an [commit] = Inr [] \<or> an [commit] = Inl err)
     \<longrightarrow> Changesets_loop g an (commit # rest) css tr
          = Changesets_loop g an rest css
              (case an [commit] of
                 Inr _ \<Rightarrow> tr1
               | Inl e \<Rightarrow> tr1 @ [Log Warn ''unable to parse changelog entries''
                   (log g @ [(''commit.hash'', AStr (Commit_Hash commit)),
                             (''pullrequest.id'', AInt (PullRequest_ID pr)),
                             (''error'', AErr e)])]))"
proof (intro conjI impI)
  assume a: "Changesets g an commits = Some (Inr result, tr')"
  show "list_all (\<lambda>cs. ChangelogEntries cs \<noteq> []) result"
    unfolding list_all_iff
  proof
    fix cs assume "cs \<in> set result"
    with a Changesets_loop_origin [of g an commits "[]" "[]" result tr' cs]
    show "ChangelogEntries cs \<noteq> []"
      by (auto simp: Changesets_def)
  qed
next
  assume "associatedPRs_loop g commit (1, [], tr) = Some (Inr prs, tr1)
      \<and> find (\<lambda>pr. MergeCommitSHA pr = Commit_Hash commit) prs = Some pr
      \<and> (an [commit] = Inr [] \<or> an [commit] = Inl err)"
  then show "Changesets_loop g an (commit # rest) css tr
          = Changesets_loop g an rest css
              (case an [commit] of
                 Inr _ \<Rightarrow> tr1
               | Inl e \<Rightarrow> tr1 @ [Log Warn ''unable to parse changelog entries''
                   (log g @ [(''commit.hash'', AStr (Commit_Hash commit)),
                             (''pullrequest.id'', AInt (PullRequest_ID pr)),
                             (''error'', AErr e)])])"
    by (auto simp: changeset_of_commit_def)
qed

theorem Changesets_entries_nonempty_witness:
  "list_all (\<lambda>cs. ChangelogEntries cs \<noteq> [])
     [\<lparr>URL = ''https://github.com/owner/repo/pull/1'', Identifier = ''#1'',
        ChangelogEntries = [\<lparr>Type = ''feat'', Scope = [], Breaking = False,
              Description = ''add retry option'',
              SourceCommit = \<lparr>Commit_Hash = ''bbb'',
                               Commit_Message = ''feat: add retry option''\<rparr>\<rparr>]\<rparr>]
   \<and> Changesets_loop example_github example_analyze
       [\<lparr>Commit_Hash = ''ddd'', Commit_Message = ''wip''\<rparr>] [] []
     = Some (Inr [],
       [Log Debug ''fetching pull requests associated with commit''
          [(''forge'', AStr ''github''), (''commit.hash'', AStr ''ddd''), (''page'', AInt 1)],
        Call_ListPullRequestsWithCommit ''owner'' ''repo'' ''ddd'' \<lparr>Page = 1, PerPage = 100\<rparr>])"
proof -
  have f: "find (\<lambda>pr. MergeCommitSHA pr
              = Commit_Hash \<lparr>Commit_Hash = ''ddd'', Commit_Message = ''wip''\<rparr>)
            [example_pr 2 ''wip'' ''ddd'' ''wip''] = Some (example_pr 2 ''wip'' ''ddd'' ''wip'')"
    by (simp add: example_pr_def)
  have e: "example_analyze [\<lparr>Commit_Hash = ''ddd'', Commit_Message = ''wip''\<rparr>] = Inr []"
    by (simp add: example_analyze_def)
  note t = Changesets_entries_nonempty [of example_github example_analyze
      "[\<lparr>Commit_Hash = ''bbb'', Commit_Message = ''feat: add retry option''\<rparr>,
        \<lparr>Commit_Hash = ''ccc'', Commit_Message = ''fix: correct null check''\<rparr>,
        \<lparr>Commit_Hash = ''ddd'', Commit_Message = ''wip''\<rparr>]" _ _
      "\<lparr>Commit_Hash = ''ddd'', Commit_Message = ''wip''\<rparr>" "[]"
      "[example_pr 2 ''wip'' ''ddd'' ''wip'']" _ "example_pr 2 ''wip'' ''ddd'' ''wip''"
      NotImplemented "[]" "[]"]
  from t example_Changesets have a: "list_all (\<lambda>cs. ChangelogEntries cs \<noteq> [])
     [\<lparr>URL = ''https://github.com/owner/repo/pull/1'', Identifier = ''#1'',
        ChangelogEntries = [\<lparr>Type = ''feat'', Scope = [], Breaking = False,
              Description = ''add retry option'',
              SourceCommit = \<lparr>Commit_Hash = ''bbb'',
                               Commit_Message = ''feat: add retry option''\<rparr>\<rparr>]\<rparr>]"
    by blast
  from t example_ddd f e have b: "Changesets_loop example_github example_analyze
       [\<lparr>Commit_Hash = ''ddd'', Commit_Message = ''wip''\<rparr>] [] []
     = Some (Inr [],
       [Log Debug ''fetching pull requests associated with commit''
          [(''forge'', AStr ''github''), (''commit.hash'', AStr ''ddd''), (''page'', AInt 1)],
        Call_ListPullRequestsWithCommit ''owner'' ''repo'' ''ddd'' \<lparr>Page = 1, PerPage = 100\<rparr>])"
    by simp
  from a b show ?thesis by (rule conjI)
qed

section \<open>Determinism of the changelog entry\<close>



section \<open>Properties of the run\<close>

text \<open>
  C2. What a run that reports success has done: it looked up the release pull request,
  cloned, deleted the local release branch if there was one, checked the branch out,
  ran the updater, wrote the changelog, committed and force-pushed, and then returned.
  The push is its last action; no pull request is created or updated after it.
\<close>

theorem reconcileReleasePR_success_ends_with_push:
  "fst (reconcileReleasePR w flagBranch changesets tag) = None \<longrightarrow>
     (\<exists>nextVersion changelogEntry.
        snd (reconcileReleasePR w flagBranch changesets tag)
        = [Act_PullRequestForBranch (RELEASER_PLEASER_BRANCH flagBranch),
           Act_CloneRepo (forge_CloneURL w) flagBranch]
          @ (if repo_Branch w (RELEASER_PLEASER_BRANCH flagBranch)
             then [Act_DeleteBranch (RELEASER_PLEASER_BRANCH flagBranch)] else [])
          @ [Act_Checkout (NewBranchReferenceName (RELEASER_PLEASER_BRANCH flagBranch)) True,
             Act_RunUpdater nextVersion,
             Act_UpdateChangelogFile changelogEntry,
             Act_Commit (''chore('' @ flagBranch @ ''): release '' @ nextVersion),
             Act_Push (rp_GitRemoteName w)
               [''+'' @ NewBranchReferenceName (RELEASER_PLEASER_BRANCH flagBranch) @ '':''
                  @ NewBranchReferenceName (RELEASER_PLEASER_BRANCH flagBranch)] True])"
  by (auto simp: reconcileReleasePR_def Let_def split: sum.splits option.splits if_splits)

theorem reconcileReleasePR_success_ends_with_push_witness:
  "reconcileReleasePR example_run ''main'' [] (Some example_tag)
   = (None,
      [Act_PullRequestForBranch ''releaser-pleaser--branches--main'',
       Act_CloneRepo ''https://github.com/owner/repo.git'' ''main'',
       Act_Checkout ''refs/heads/releaser-pleaser--branches--main'' True,
       Act_RunUpdater ''v1.3.0'',
       Act_UpdateChangelogFile ''## [v1.3.0](https://github.com/owner/repo/releases/tag/v1.3.0)'',
       Act_Commit ''chore(main): release v1.3.0'',
       Act_Push ''origin''
         [''+refs/heads/releaser-pleaser--branches--main:refs/heads/releaser-pleaser--branches--main'']
         True])"
proof -
  have e: "reconcileReleasePR example_run ''main'' [] (Some example_tag)
   = (None,
      [Act_PullRequestForBranch ''releaser-pleaser--branches--main'',
       Act_CloneRepo ''https://github.com/owner/repo.git'' ''main'',
       Act_Checkout ''refs/heads/releaser-pleaser--branches--main'' True,
       Act_RunUpdater ''v1.3.0'',
       Act_UpdateChangelogFile ''## [v1.3.0](https://github.com/owner/repo/releases/tag/v1.3.0)'',
       Act_Commit ''chore(main): release v1.3.0'',
       Act_Push ''origin''
         [''+refs/heads/releaser-pleaser--branches--main:refs/heads/releaser-pleaser--branches--main'']
         True])"
    by (simp add: reconcileReleasePR_def example_run_def RELEASER_PLEASER_BRANCH_def
        NewBranchReferenceName_def Let_def)
  then have "fst (reconcileReleasePR example_run ''main'' [] (Some example_tag)) = None"
    by simp
  with reconcileReleasePR_success_ends_with_push
    [of example_run "''main''" "[]" "Some example_tag"]
  have "\<exists>nextVersion changelogEntry.
        snd (reconcileReleasePR example_run ''main'' [] (Some example_tag))
        = [Act_PullRequestForBranch (RELEASER_PLEASER_BRANCH ''main''),
           Act_CloneRepo (forge_CloneURL example_run) ''main'']
          @ (if repo_Branch example_run (RELEASER_PLEASER_BRANCH ''main'')
             then [Act_DeleteBranch (RELEASER_PLEASER_BRANCH ''main'')] else [])
          @ [Act_Checkout (NewBranchReferenceName (RELEASER_PLEASER_BRANCH ''main'')) True,
             Act_RunUpdater nextVersion,
             Act_UpdateChangelogFile changelogEntry,
             Act_Commit (''chore('' @ ''main'' @ ''): release '' @ nextVersion),
             Act_Push (rp_GitRemoteName example_run)
               [''+'' @ NewBranchReferenceName (RELEASER_PLEASER_BRANCH ''main'') @ '':''
                  @ NewBranchReferenceName (RELEASER_PLEASER_BRANCH ''main'')] True]"
    by (rule mp)
  with e show ?thesis by simp
qed

end
